theory Spec2Isabelle
  imports Main
begin

section \<open>Python values and built-ins used by the two modules\<close>

text \<open>
  A Python \<open>str\<close> is modelled as the list of its code points, for code points below 256
  (Isabelle's \<open>char\<close>). Code points from 256 on are outside the model.
  The values a criterion can carry are \<open>None\<close>, booleans, integers and strings.
\<close>

datatype pyval = PNone | PBool bool | PInt int | PStr string

datatype error =
    FilterException string
  | ValueError
  | TypeError
  | AttributeError
  | NameError string

text \<open>Truth value testing, as done by \<open>if boolean:\<close>.\<close>

fun py_truthy :: "pyval \<Rightarrow> bool" where
  "py_truthy PNone = False"
| "py_truthy (PBool b) = b"
| "py_truthy (PInt n) = (n \<noteq> 0)"
| "py_truthy (PStr s) = (s \<noteq> [])"

text \<open>
  \<open>str.isspace\<close> on one code point below 256: tab, line feed, vertical tab, form feed,
  carriage return, the separators 28 to 31, space, next line (133) and no-break space (160).
\<close>

definition is_space :: "char \<Rightarrow> bool" where
  "is_space c =
     (let n = (of_char c :: nat)
      in (9 \<le> n \<and> n \<le> 13) \<or> (28 \<le> n \<and> n \<le> 32) \<or> n = 133 \<or> n = 160)"

text \<open>
  \<open>str.lower\<close> on one code point below 256: \<open>A\<close> to \<open>Z\<close> and the Latin-1 capitals
  192 to 222 (without the multiplication sign 215) move up by 32.
\<close>

definition lower_char :: "char \<Rightarrow> char" where
  "lower_char c =
     (let n = (of_char c :: nat)
      in if (65 \<le> n \<and> n \<le> 90) \<or> (192 \<le> n \<and> n \<le> 222 \<and> n \<noteq> 215)
         then char_of (n + 32) else c)"

definition py_lower :: "string \<Rightarrow> string" where
  "py_lower s = map lower_char s"

definition is_digit :: "char \<Rightarrow> bool" where
  "is_digit c = (let n = (of_char c :: nat) in 48 \<le> n \<and> n \<le> 57)"

definition digit_val :: "char \<Rightarrow> int" where
  "digit_val c = int (of_char c) - 48"

text \<open>\<open>str.split(sep)\<close> for a one-character separator.\<close>

fun py_split :: "char \<Rightarrow> string \<Rightarrow> string list" where
  "py_split sep [] = [[]]"
| "py_split sep (c # cs) =
     (if c = sep then [] # py_split sep cs
      else (case py_split sep cs of
              [] \<Rightarrow> [[c]]
            | p # ps \<Rightarrow> (c # p) # ps))"

text \<open>
  \<open>int(s)\<close> for a string, base 10: surrounding whitespace is dropped, one sign may
  lead, and the digits may be separated by single underscores. \<open>None\<close> stands for
  the \<open>ValueError\<close>. (The limit on the number of digits that later interpreters
  have is not modelled.)

  The whitespace that \<open>int\<close> drops is narrower than \<open>str.isspace\<close>: below 127 it is
  tab, line feed, vertical tab, form feed, carriage return and space only, so the
  separators 28 to 31 stay and make the parse fail; from 127 on it is what \<open>str.isspace\<close>
  accepts, which is next line (133) and no-break space (160).
\<close>

definition is_int_space :: "char \<Rightarrow> bool" where
  "is_int_space c =
     (let n = (of_char c :: nat)
      in (9 \<le> n \<and> n \<le> 13) \<or> n = 32 \<or> n = 133 \<or> n = 160)"

fun int_digits :: "int \<Rightarrow> string \<Rightarrow> int option" where
  "int_digits acc [] = Some acc"
| "int_digits acc (c # cs) =
     (if is_digit c then int_digits (acc * 10 + digit_val c) cs
      else if c = CHR ''_'' then
        (case cs of
           [] \<Rightarrow> None
         | d # ds \<Rightarrow> if is_digit d then int_digits (acc * 10 + digit_val d) ds else None)
      else None)"

definition int_body :: "string \<Rightarrow> int option" where
  "int_body s =
     (case s of
        [] \<Rightarrow> None
      | c # cs \<Rightarrow> if is_digit c then int_digits (digit_val c) cs else None)"

definition int_strip :: "string \<Rightarrow> string" where
  "int_strip s = rev (dropWhile is_int_space (rev (dropWhile is_int_space s)))"

definition int_of_str :: "string \<Rightarrow> int option" where
  "int_of_str s =
     (case int_strip s of
        [] \<Rightarrow> None
      | c # cs \<Rightarrow>
          if c = CHR ''-'' then map_option uminus (int_body cs)
          else if c = CHR ''+'' then int_body cs
          else int_body (c # cs))"

text \<open>\<open>int(value)\<close>: \<open>None\<close> has no integer conversion, a string is parsed.\<close>

fun py_int :: "pyval \<Rightarrow> error + int" where
  "py_int PNone = Inl TypeError"
| "py_int (PBool b) = Inr (if b then 1 else 0)"
| "py_int (PInt n) = Inr n"
| "py_int (PStr s) = (case int_of_str s of None \<Rightarrow> Inl ValueError | Some n \<Rightarrow> Inr n)"

text \<open>\<open>str(value)\<close>, which is also what \<open>'{value}'.format(value=value)\<close> inserts.\<close>

definition digit_char :: "nat \<Rightarrow> char" where
  "digit_char d = char_of (48 + d)"

fun str_of_nat :: "nat \<Rightarrow> string" where
  "str_of_nat n = (if n < 10 then [digit_char n] else str_of_nat (n div 10) @ [digit_char (n mod 10)])"

definition str_of_int :: "int \<Rightarrow> string" where
  "str_of_int i = (if i < 0 then CHR ''-'' # str_of_nat (nat (- i)) else str_of_nat (nat i))"

fun py_str :: "pyval \<Rightarrow> string" where
  "py_str PNone = ''None''"
| "py_str (PBool b) = (if b then ''True'' else ''False'')"
| "py_str (PInt n) = str_of_int n"
| "py_str (PStr s) = s"


section \<open>Regular expressions of the service-name table\<close>

text \<open>
  The patterns of \<open>SERVICE_NAME_MATCHING\<close> use the start anchor, literal characters,
  the class \<open>\S\<close>, the greedy star and the optional item. \<open>rmatch\<close> is a backtracking
  matcher: from a position (the index and the rest of the input) it lists the positions at
  which a match of the expression can end, the preferred one first. The flag says whether
  \<open>re.IGNORECASE\<close> is set.
\<close>

datatype regex =
    Eps
  | Bol
  | Chr char
  | NotSpace
  | Cat regex regex
  | Opt regex
  | Star regex

fun lit :: "string \<Rightarrow> regex" where
  "lit [] = Eps"
| "lit (c # cs) = Cat (Chr c) (lit cs)"

type_synonym pos = "nat \<times> string"

fun star_iter :: "(pos \<Rightarrow> pos list) \<Rightarrow> nat \<Rightarrow> pos \<Rightarrow> pos list" where
  "star_iter m 0 st = [st]"
| "star_iter m (Suc n) st =
     concat (map (star_iter m n) (filter (\<lambda>st'. length (snd st') < length (snd st)) (m st))) @ [st]"

primrec rmatch :: "bool \<Rightarrow> regex \<Rightarrow> pos \<Rightarrow> pos list" where
  "rmatch ic Eps = (\<lambda>st. [st])"
| "rmatch ic Bol = (\<lambda>st. if fst st = 0 then [st] else [])"
| "rmatch ic (Chr c) = (\<lambda>st.
     case snd st of
       [] \<Rightarrow> []
     | d # ds \<Rightarrow>
         if (if ic then lower_char d = lower_char c else d = c)
         then [(Suc (fst st), ds)] else [])"
| "rmatch ic NotSpace = (\<lambda>st.
     case snd st of
       [] \<Rightarrow> []
     | d # ds \<Rightarrow> if is_space d then [] else [(Suc (fst st), ds)])"
| "rmatch ic (Cat r1 r2) = (\<lambda>st. concat (map (rmatch ic r2) (rmatch ic r1 st)))"
| "rmatch ic (Opt r) = (\<lambda>st. rmatch ic r st @ [st])"
| "rmatch ic (Star r) = (\<lambda>st. star_iter (rmatch ic r) (length (snd st)) st)"

text \<open>\<open>re.match(pattern, s, flags)\<close> as a truth value: some match starts at index 0.\<close>

definition re_match :: "regex \<Rightarrow> string \<Rightarrow> bool \<Rightarrow> bool" where
  "re_match pattern s ic = (rmatch ic pattern (0, s) \<noteq> [])"


section \<open>Importer: \<open>lib/importer/Config.py\<close>\<close>

text \<open>
  The dictionary keeps its insertion order, which is the order of iteration in
  \<open>get_service_name\<close>; it is an association list here, entry by entry in
  the order of the source: \<open>^ajp\S*\<close>, \<open>^ftp\S*\<close>, \<open>^\S*http\S*\<close>, \<open>^ssl/ssl\<close>,
  \<open>^rmiregistry\<close>, \<open>^jdwp\<close>, \<open>^ms-?sql\S*\<close>, \<open>^mysql\S*\<close>, \<open>^oracle\S*\<close>,
  \<open>^postgre(sql)?\<close>, \<open>^ms-wbt-server\<close>, \<open>^rdp\<close>, \<open>^microsoft-ds\<close>, \<open>^smb\<close>,
  \<open>^smtp\S*\<close>, \<open>^snmp\S*\<close>, \<open>^ssh\<close>, \<open>^telnet\S*\<close>, \<open>^vnc\<close>.
\<close>

definition SERVICE_NAME_MATCHING :: "(regex \<times> string) list" where
  "SERVICE_NAME_MATCHING =
    [ (Cat Bol (Cat (lit ''ajp'') (Star NotSpace)), ''ajp''),
      (Cat Bol (Cat (lit ''ftp'') (Star NotSpace)), ''ftp''),
      (Cat Bol (Cat (Star NotSpace) (Cat (lit ''http'') (Star NotSpace))), ''http''),
      (Cat Bol (lit ''ssl/ssl''), ''http''),
      (Cat Bol (lit ''rmiregistry''), ''java-rmi''),
      (Cat Bol (lit ''jdwp''), ''jdwp''),
      (Cat Bol (Cat (lit ''ms'') (Cat (Opt (Chr CHR ''-'')) (Cat (lit ''sql'') (Star NotSpace)))),
         ''mssql''),
      (Cat Bol (Cat (lit ''mysql'') (Star NotSpace)), ''mysql''),
      (Cat Bol (Cat (lit ''oracle'') (Star NotSpace)), ''oracle''),
      (Cat Bol (Cat (lit ''postgre'') (Opt (lit ''sql''))), ''postgresql''),
      (Cat Bol (lit ''ms-wbt-server''), ''rdp''),
      (Cat Bol (lit ''rdp''), ''rdp''),
      (Cat Bol (lit ''microsoft-ds''), ''smb''),
      (Cat Bol (lit ''smb''), ''smb''),
      (Cat Bol (Cat (lit ''smtp'') (Star NotSpace)), ''smtp''),
      (Cat Bol (Cat (lit ''snmp'') (Star NotSpace)), ''snmp''),
      (Cat Bol (lit ''ssh''), ''ssh''),
      (Cat Bol (Cat (lit ''telnet'') (Star NotSpace)), ''telnet''),
      (Cat Bol (lit ''vnc''), ''vnc'') ]"

text \<open>
  The loop of \<open>get_service_name\<close> over a table: the first pattern that matches decides,
  and the input comes back when the table is exhausted.
\<close>

fun service_name_loop :: "(regex \<times> string) list \<Rightarrow> string \<Rightarrow> string" where
  "service_name_loop [] original_service_name = original_service_name"
| "service_name_loop ((pattern, name) # rest) original_service_name =
     (if re_match pattern original_service_name True then name
      else service_name_loop rest original_service_name)"

definition get_service_name :: "string \<Rightarrow> string" where
  "get_service_name original_service_name =
     service_name_loop SERVICE_NAME_MATCHING original_service_name"


section \<open>Requester: \<open>lib/requester/Condition.py\<close>\<close>

subsection \<open>The predicates built with the query layer\<close>

text \<open>
  The mapped classes and their columns are opaque to this module: a column is the class and
  the attribute name, as in \<open>Service.port\<close>. A predicate is the expression tree that the
  operators of the query layer build.
\<close>

datatype entity =
  Host | Service | Credential | Mission | Result | CommandOutput | Vuln | Option | Product

datatype column = Col entity string

datatype Protocol = TCP | UDP

datatype operand = Val pyval | Enum Protocol | Ref column

datatype pred =
    Equals column operand
  | ILike column string
  | Between column int int
  | InIpRange pyval
  | Is column pyval
  | IsNot column pyval
  | AndP pred pred
  | OrP pred pred
  | NotP pred
  | ExistsQuery entity pred

text \<open>
  The operator \<open>==\<close> of the query layer on a column and a Python value: compared with
  \<open>None\<close> it builds \<open>IS NULL\<close> (the operator \<open>is_\<close>), with any other value an equality.
  The translators below use it where the value of the criterion is compared as it comes;
  where the right operand is the result of \<open>int\<close> or \<open>str\<close>, a boolean, or a value that a
  validator has accepted, it is no \<open>None\<close> and the equality is written directly.
\<close>

definition column_eq :: "column \<Rightarrow> pyval \<Rightarrow> pred" where
  "column_eq c v = (case v of PNone \<Rightarrow> Is c PNone | _ \<Rightarrow> Equals c (Val v))"

text \<open>
  The truth-functional reading of a predicate, for any reading \<open>L\<close> of its leaves:
  \<open>&\<close> is conjunction, \<open>|\<close> disjunction and \<open>not_\<close> negation.
\<close>

fun holds :: "(pred \<Rightarrow> bool) \<Rightarrow> pred \<Rightarrow> bool" where
  "holds L (AndP p q) = (holds L p \<and> holds L q)"
| "holds L (OrP p q) = (holds L p \<or> holds L q)"
| "holds L (NotP p) = (\<not> holds L p)"
| "holds L p = L p"

subsection \<open>Names the module depends on\<close>

text \<open>
  \<open>FilterData\<close> is declared in \<open>lib/core/Constants.py\<close>, which is not among the sources
  at hand. Its members used as keys of \<open>Condition.mapping\<close> are enumerated; \<open>UNMAPPED\<close>
  stands for a member of \<open>FilterData\<close> that is no key of the mapping. The filter type of a
  condition is a member of the enumeration; an object that cannot be hashed, on which the
  lookup in the mapping would raise, is no filter type and is outside the model.
\<close>

datatype FilterData =
    IP | HOST | PORT | PROTOCOL | UP | SERVICE | SERVICE_EXACT | SERVICE_ID
  | OS | OS_FAMILY | BANNER | URL | URL_EXACT | HTML_TITLE | HTTP_HEADERS
  | USERNAME | PASSWORD | AUTH_TYPE | USER_AND_PASS | ONLY_USER
  | COMMENT_SERVICE | COMMENT_HOST | COMMENT_CRED | COMMENT_MISSION
  | MISSION_EXACT | MISSION | CHECK_ID | CHECK_NAME | COMMAND_OUTPUT | VULN
  | OPTION_NAME | OPTION_VALUE | PRODUCT_TYPE | PRODUCT_NAME | PRODUCT_VERSION
  | UNSCANNED
  | UNMAPPED nat

text \<open>
  The validators of \<open>lib/utils/NetUtils.py\<close> are not among the sources at hand either;
  the translators take them as parameters, each a truth value for every value it is given.
  No validator accepts \<open>None\<close>.
\<close>

record NetUtils =
  is_valid_ip :: "pyval \<Rightarrow> bool"
  is_valid_ip_range :: "pyval \<Rightarrow> bool"
  is_valid_port :: "pyval \<Rightarrow> bool"
  is_valid_port_range :: "pyval \<Rightarrow> bool"

text \<open>
  The classes that the import statements of the module bind by name. A name that is not
  bound raises \<open>NameError\<close> when it is evaluated.
\<close>

definition module_globals :: "(string \<times> entity) list" where
  "module_globals =
    [ (''CommandOutput'', CommandOutput), (''Credential'', Credential), (''Host'', Host),
      (''Mission'', Mission), (''Option'', Option), (''Product'', Product),
      (''Result'', Result), (''Service'', Service), (''Vuln'', Vuln) ]"

subsection \<open>The translators, one per filter type\<close>

definition translate_ip :: "NetUtils \<Rightarrow> pyval \<Rightarrow> error + pred option" where
  "translate_ip nu v =
     (if is_valid_ip nu v then Inr (Some (Equals (Col Host ''ip'') (Val v)))
      else if is_valid_ip_range nu v then Inr (Some (InIpRange v))
      else Inl (FilterException (py_str v @ '' invalid IP/range'')))"

definition translate_host :: "pyval \<Rightarrow> error + pred option" where
  "translate_host v = Inr (Some (ILike (Col Host ''hostname'') (''%'' @ py_str v @ ''%'')))"

text \<open>
  In the range branch the callee \<open>Sevrice.port.between\<close> is evaluated before its
  arguments, after the unpacking of \<open>value.split('-')\<close>.
\<close>

definition translate_port :: "NetUtils \<Rightarrow> pyval \<Rightarrow> error + pred option" where
  "translate_port nu v =
     (if is_valid_port nu v then
        (case py_int v of
           Inl e \<Rightarrow> Inl e
         | Inr n \<Rightarrow> Inr (Some (Equals (Col Service ''port'') (Val (PInt n)))))
      else if is_valid_port_range nu v then
        (case v of
           PStr s \<Rightarrow>
             (case py_split CHR ''-'' s of
                [minport, maxport] \<Rightarrow>
                  (case map_of module_globals ''Sevrice'' of
                     None \<Rightarrow> Inl (NameError ''Sevrice'')
                   | Some cls \<Rightarrow>
                       (case py_int (PStr minport) of
                          Inl e \<Rightarrow> Inl e
                        | Inr lo \<Rightarrow>
                            (case py_int (PStr maxport) of
                               Inl e \<Rightarrow> Inl e
                             | Inr hi \<Rightarrow> Inr (Some (Between (Col cls ''port'') lo hi)))))
              | _ \<Rightarrow> Inl ValueError)
         | _ \<Rightarrow> Inl AttributeError)
      else Inl (FilterException (py_str v @ '' invalid port/range'')))"

definition translate_protocol :: "pyval \<Rightarrow> error + pred option" where
  "translate_protocol v =
     (case v of
        PStr s \<Rightarrow>
          if py_lower s = ''tcp'' then Inr (Some (Equals (Col Service ''protocol'') (Enum TCP)))
          else if py_lower s = ''udp'' then Inr (Some (Equals (Col Service ''protocol'') (Enum UDP)))
          else Inl (FilterException (py_str v @ '' invalid protocol''))
      | _ \<Rightarrow> Inl AttributeError)"

definition translate_up :: "pyval \<Rightarrow> error + pred option" where
  "translate_up v =
     (case v of
        PBool b \<Rightarrow> Inr (Some (Equals (Col Service ''up'') (Val (PBool b))))
      | PStr s \<Rightarrow> Inr (Some (Equals (Col Service ''up'') (Val (PBool (py_lower s = ''true'')))))
      | _ \<Rightarrow> Inl (FilterException (py_str v @ '' invalid up status'')))"

definition translate_service :: "pyval \<Rightarrow> error + pred option" where
  "translate_service v = Inr (Some (ILike (Col Service ''name'') (''%'' @ py_str v @ ''%'')))"

definition translate_service_exact :: "pyval \<Rightarrow> error + pred option" where
  "translate_service_exact v = Inr (Some (column_eq (Col Service ''name'') v))"

definition translate_service_id :: "pyval \<Rightarrow> error + pred option" where
  "translate_service_id v =
     (case py_int v of
        Inl e \<Rightarrow> Inl e
      | Inr n \<Rightarrow> Inr (Some (Equals (Col Service ''id'') (Val (PInt n)))))"

definition translate_os :: "pyval \<Rightarrow> error + pred option" where
  "translate_os v = Inr (Some (ILike (Col Host ''os'') (''%'' @ py_str v @ ''%'')))"

definition translate_os_family :: "pyval \<Rightarrow> error + pred option" where
  "translate_os_family v = Inr (Some (ILike (Col Host ''os_family'') (''%'' @ py_str v @ ''%'')))"

definition translate_banner :: "pyval \<Rightarrow> error + pred option" where
  "translate_banner v = Inr (Some (ILike (Col Service ''banner'') (''%'' @ py_str v @ ''%'')))"

definition translate_url :: "pyval \<Rightarrow> error + pred option" where
  "translate_url v = Inr (Some (ILike (Col Service ''url'') (''%'' @ py_str v @ ''%'')))"

definition translate_url_exact :: "pyval \<Rightarrow> error + pred option" where
  "translate_url_exact v = Inr (Some (Equals (Col Service ''url'') (Val (PStr (py_str v)))))"

definition translate_html_title :: "pyval \<Rightarrow> error + pred option" where
  "translate_html_title v =
     Inr (Some (ILike (Col Service ''html_title'') (''%'' @ py_str v @ ''%'')))"

definition translate_http_headers :: "pyval \<Rightarrow> error + pred option" where
  "translate_http_headers v =
     Inr (Some (ILike (Col Service ''http_headers'') (''%'' @ py_str v @ ''%'')))"

definition translate_username :: "pyval \<Rightarrow> error + pred option" where
  "translate_username v =
     Inr (Some (ILike (Col Credential ''username'') (''%'' @ py_str v @ ''%'')))"

definition translate_password :: "pyval \<Rightarrow> error + pred option" where
  "translate_password v =
     Inr (Some (ILike (Col Credential ''password'') (''%'' @ py_str v @ ''%'')))"

definition translate_auth_type :: "pyval \<Rightarrow> error + pred option" where
  "translate_auth_type v =
     Inr (Some (ILike (Col Credential ''type'') (''%'' @ py_str v @ ''%'')))"

definition translate_user_and_pass :: "pyval \<Rightarrow> error + pred option" where
  "translate_user_and_pass boolean =
     (if py_truthy boolean
      then Inr (Some (AndP (IsNot (Col Credential ''username'') PNone)
                           (IsNot (Col Credential ''password'') PNone)))
      else Inr None)"

definition translate_only_user :: "pyval \<Rightarrow> error + pred option" where
  "translate_only_user boolean =
     (if py_truthy boolean
      then Inr (Some (AndP (IsNot (Col Credential ''username'') PNone)
                           (Is (Col Credential ''password'') PNone)))
      else Inr None)"

definition translate_comment_service :: "pyval \<Rightarrow> error + pred option" where
  "translate_comment_service v =
     Inr (Some (ILike (Col Service ''comment'') (''%'' @ py_str v @ ''%'')))"

definition translate_comment_host :: "pyval \<Rightarrow> error + pred option" where
  "translate_comment_host v =
     Inr (Some (ILike (Col Host ''comment'') (''%'' @ py_str v @ ''%'')))"

definition translate_comment_cred :: "pyval \<Rightarrow> error + pred option" where
  "translate_comment_cred v =
     Inr (Some (ILike (Col Credential ''comment'') (''%'' @ py_str v @ ''%'')))"

definition translate_comment_mission :: "pyval \<Rightarrow> error + pred option" where
  "translate_comment_mission v =
     Inr (Some (ILike (Col Mission ''comment'') (''%'' @ py_str v @ ''%'')))"

definition translate_mission_exact :: "pyval \<Rightarrow> error + pred option" where
  "translate_mission_exact v = Inr (Some (column_eq (Col Mission ''name'') v))"

definition translate_mission :: "pyval \<Rightarrow> error + pred option" where
  "translate_mission v = Inr (Some (ILike (Col Mission ''name'') (''%'' @ py_str v @ ''%'')))"

definition translate_check_id :: "pyval \<Rightarrow> error + pred option" where
  "translate_check_id v =
     (case py_int v of
        Inl e \<Rightarrow> Inl e
      | Inr n \<Rightarrow> Inr (Some (Equals (Col Result ''id'') (Val (PInt n)))))"

definition translate_check_name :: "pyval \<Rightarrow> error + pred option" where
  "translate_check_name v = Inr (Some (ILike (Col Result ''check'') (''%'' @ py_str v @ ''%'')))"

definition translate_command_output :: "pyval \<Rightarrow> error + pred option" where
  "translate_command_output v =
     Inr (Some (ILike (Col CommandOutput ''output'') (''%'' @ py_str v @ ''%'')))"

definition translate_vuln :: "pyval \<Rightarrow> error + pred option" where
  "translate_vuln v = Inr (Some (ILike (Col Vuln ''name'') (''%'' @ py_str v @ ''%'')))"

definition translate_option_name :: "pyval \<Rightarrow> error + pred option" where
  "translate_option_name v = Inr (Some (ILike (Col Option ''name'') (''%'' @ py_str v @ ''%'')))"

definition translate_option_value :: "pyval \<Rightarrow> error + pred option" where
  "translate_option_value v =
     Inr (Some (ILike (Col Option ''value'') (''%'' @ py_str v @ ''%'')))"

definition translate_product_type :: "pyval \<Rightarrow> error + pred option" where
  "translate_product_type v =
     Inr (Some (ILike (Col Product ''type'') (''%'' @ py_str v @ ''%'')))"

definition translate_product_name :: "pyval \<Rightarrow> error + pred option" where
  "translate_product_name v =
     Inr (Some (ILike (Col Product ''name'') (''%'' @ py_str v @ ''%'')))"

definition translate_product_version :: "pyval \<Rightarrow> error + pred option" where
  "translate_product_version v =
     Inr (Some (ILike (Col Product ''version'') (''%'' @ py_str v @ ''%'')))"

text \<open>
  The sub-query of \<open>__translate_unscanned\<close> is built in a session of the query layer;
  only the expression it returns is modelled.
\<close>

definition translate_unscanned :: "pyval \<Rightarrow> error + pred option" where
  "translate_unscanned v =
     Inr (Some (NotP (ExistsQuery Result
                        (Equals (Col Service ''id'') (Ref (Col Result ''service_id''))))))"

subsection \<open>The condition and its translation\<close>

record Condition =
  cvalue :: "pyval list"
  filtertype :: FilterData

text \<open>
  The attribute \<open>value\<close> of the source is the field \<open>cvalue\<close>. The constructor wraps a
  value that is not a list into a one-element list.
\<close>

datatype init_value = Single pyval | Listed "pyval list"

definition Condition_init :: "init_value \<Rightarrow> FilterData \<Rightarrow> Condition" where
  "Condition_init v ft =
     \<lparr> cvalue = (case v of Listed vs \<Rightarrow> vs | Single x \<Rightarrow> [x]), filtertype = ft \<rparr>"

fun mapping :: "NetUtils \<Rightarrow> FilterData \<Rightarrow> (pyval \<Rightarrow> error + pred option) option" where
  "mapping nu IP = Some (translate_ip nu)"
| "mapping nu HOST = Some translate_host"
| "mapping nu PORT = Some (translate_port nu)"
| "mapping nu PROTOCOL = Some translate_protocol"
| "mapping nu UP = Some translate_up"
| "mapping nu SERVICE = Some translate_service"
| "mapping nu SERVICE_EXACT = Some translate_service_exact"
| "mapping nu SERVICE_ID = Some translate_service_id"
| "mapping nu OS = Some translate_os"
| "mapping nu OS_FAMILY = Some translate_os_family"
| "mapping nu BANNER = Some translate_banner"
| "mapping nu URL = Some translate_url"
| "mapping nu URL_EXACT = Some translate_url_exact"
| "mapping nu HTML_TITLE = Some translate_html_title"
| "mapping nu HTTP_HEADERS = Some translate_http_headers"
| "mapping nu USERNAME = Some translate_username"
| "mapping nu PASSWORD = Some translate_password"
| "mapping nu AUTH_TYPE = Some translate_auth_type"
| "mapping nu USER_AND_PASS = Some translate_user_and_pass"
| "mapping nu ONLY_USER = Some translate_only_user"
| "mapping nu COMMENT_SERVICE = Some translate_comment_service"
| "mapping nu COMMENT_HOST = Some translate_comment_host"
| "mapping nu COMMENT_CRED = Some translate_comment_cred"
| "mapping nu COMMENT_MISSION = Some translate_comment_mission"
| "mapping nu MISSION_EXACT = Some translate_mission_exact"
| "mapping nu MISSION = Some translate_mission"
| "mapping nu CHECK_ID = Some translate_check_id"
| "mapping nu CHECK_NAME = Some translate_check_name"
| "mapping nu COMMAND_OUTPUT = Some translate_command_output"
| "mapping nu VULN = Some translate_vuln"
| "mapping nu OPTION_NAME = Some translate_option_name"
| "mapping nu OPTION_VALUE = Some translate_option_value"
| "mapping nu PRODUCT_TYPE = Some translate_product_type"
| "mapping nu PRODUCT_NAME = Some translate_product_name"
| "mapping nu PRODUCT_VERSION = Some translate_product_version"
| "mapping nu UNSCANNED = Some translate_unscanned"
| "mapping nu (UNMAPPED k) = None"

text \<open>
  The loop of \<open>translate\<close>, with \<open>result\<close> as the accumulator. An exception of the
  translator leaves the loop at once.
\<close>

fun translate_loop ::
  "(pyval \<Rightarrow> error + pred option) \<Rightarrow> pred option \<Rightarrow> pyval list \<Rightarrow> error + pred option" where
  "translate_loop method_translate result [] = Inr result"
| "translate_loop method_translate result (v # vs) =
     (case method_translate v of
        Inl e \<Rightarrow> Inl e
      | Inr None \<Rightarrow> translate_loop method_translate result vs
      | Inr (Some translated) \<Rightarrow>
          (case result of
             None \<Rightarrow> translate_loop method_translate (Some translated) vs
           | Some r \<Rightarrow> translate_loop method_translate (Some (OrP r translated)) vs))"

definition translate :: "NetUtils \<Rightarrow> Condition \<Rightarrow> error + pred option" where
  "translate nu c =
     (case mapping nu (filtertype c) of
        None \<Rightarrow> Inr None
      | Some method_translate \<Rightarrow> translate_loop method_translate None (cvalue c))"


subsection \<open>A reading of the validators\<close>

text \<open>
  Modelled from the spec: the validators of \<open>NetUtils\<close>, which the sources at hand do
  not contain. The spec gives the accepted syntax of each kind: a port is an
  "integer string", a port range a "\<open>min-max\<close> range string", an address a "dotted-quad IP"
  and an address range a "CIDR range" (\<open>10.0.0.0/24\<close> is one, \<open>10.0.0.1/33\<close> is not).
\<close>

text \<open>Modelled from the spec: an "integer string" is one or more decimal digits.\<close>

definition all_digits :: "string \<Rightarrow> bool" where
  "all_digits s = (s \<noteq> [] \<and> list_all is_digit s)"

definition nat_of_digits :: "string \<Rightarrow> nat" where
  "nat_of_digits s = foldl (\<lambda>a c. a * 10 + nat (digit_val c)) 0 s"

text \<open>
  Modelled from the spec: a "dotted-quad IP" is four numbers from 0 to 255 separated by dots.
\<close>

definition octet :: "string \<Rightarrow> bool" where
  "octet s = (all_digits s \<and> nat_of_digits s \<le> 255)"

definition dotted_quad :: "string \<Rightarrow> bool" where
  "dotted_quad s =
     (case py_split CHR ''.'' s of
        [a, b, c, d] \<Rightarrow> octet a \<and> octet b \<and> octet c \<and> octet d
      | _ \<Rightarrow> False)"

text \<open>
  Modelled from the spec: a "CIDR range" is a dotted quad, a slash and a prefix length of at
  most 32.
\<close>

definition cidr_range :: "string \<Rightarrow> bool" where
  "cidr_range s =
     (case py_split CHR ''/'' s of
        [a, p] \<Rightarrow> dotted_quad a \<and> all_digits p \<and> nat_of_digits p \<le> 32
      | _ \<Rightarrow> False)"

text \<open>
  Modelled from the spec: a "\<open>min-max\<close> range string" is two integer strings separated by a
  hyphen.
\<close>

definition port_range :: "string \<Rightarrow> bool" where
  "port_range s =
     (case py_split CHR ''-'' s of
        [a, b] \<Rightarrow> all_digits a \<and> all_digits b
      | _ \<Rightarrow> False)"

definition on_str :: "(string \<Rightarrow> bool) \<Rightarrow> pyval \<Rightarrow> bool" where
  "on_str P v = (case v of PStr s \<Rightarrow> P s | _ \<Rightarrow> False)"

text \<open>
  Modelled from the spec: the four validators of \<open>NetUtils\<close>, each accepting the strings
  of its syntax and no value of another type.
\<close>

definition spec_NetUtils :: NetUtils where
  "spec_NetUtils =
     \<lparr> is_valid_ip = on_str dotted_quad,
       is_valid_ip_range = on_str cidr_range,
       is_valid_port = on_str all_digits,
       is_valid_port_range = on_str port_range \<rparr>"


subsection \<open>The combination of the per-value predicates, as the specification words it\<close>

text \<open>
  The specification describes the result of \<open>translate\<close> as the logical OR of the non-null
  per-value predicates, first to last. \<open>non_null\<close> collects those predicates in the order
  of the values; \<open>or_all\<close> joins them from the left and is null for none.
\<close>

fun non_null :: "(pyval \<Rightarrow> error + pred option) \<Rightarrow> pyval list \<Rightarrow> pred list" where
  "non_null f [] = []"
| "non_null f (v # vs) =
     (case f v of
        Inr (Some p) \<Rightarrow> p # non_null f vs
      | _ \<Rightarrow> non_null f vs)"

fun or_all :: "pred list \<Rightarrow> pred option" where
  "or_all [] = None"
| "or_all (p # ps) = Some (foldl OrP p ps)"


section \<open>Properties of the service-name normalizer\<close>

lemmas char_defs = is_space_def lower_char_def is_digit_def digit_val_def

lemmas int_defs = int_of_str_def int_strip_def is_int_space_def int_body_def

lemmas validator_defs =
  spec_NetUtils_def on_str_def all_digits_def nat_of_digits_def octet_def dotted_quad_def
  cidr_range_def port_range_def

lemma loop_first_match:
  "i < length T \<Longrightarrow> re_match (fst (T ! i)) s True \<Longrightarrow>
   (\<forall>j<i. \<not> re_match (fst (T ! j)) s True) \<Longrightarrow>
   service_name_loop T s = snd (T ! i)"
proof (induction T arbitrary: i)
  case Nil
  then show ?case by simp
next
  case (Cons rule T)
  obtain pattern name where rule: "rule = (pattern, name)" by (cases rule)
  show ?case
  proof (cases i)
    case 0
    with Cons.prems rule show ?thesis by simp
  next
    case (Suc k)
    have head: "\<not> re_match pattern s True"
      using Cons.prems(3) Suc rule by force
    have "service_name_loop T s = snd (T ! k)"
    proof (rule Cons.IH)
      show "k < length T" using Cons.prems(1) Suc by simp
      show "re_match (fst (T ! k)) s True" using Cons.prems(2) Suc by simp
      show "\<forall>j<k. \<not> re_match (fst (T ! j)) s True"
      proof (intro allI impI)
        fix j assume "j < k"
        then have "Suc j < i" using Suc by simp
        with Cons.prems(3) have "\<not> re_match (fst ((rule # T) ! Suc j)) s True" by blast
        then show "\<not> re_match (fst (T ! j)) s True" by simp
      qed
    qed
    with head rule Suc show ?thesis by simp
  qed
qed

lemma loop_no_match:
  "(\<forall>i<length T. \<not> re_match (fst (T ! i)) s True) \<Longrightarrow> service_name_loop T s = s"
proof (induction T)
  case Nil
  then show ?case by simp
next
  case (Cons rule T)
  obtain pattern name where rule: "rule = (pattern, name)" by (cases rule)
  have head: "\<not> re_match pattern s True" using Cons.prems rule by force
  have "\<forall>i<length T. \<not> re_match (fst (T ! i)) s True"
  proof (intro allI impI)
    fix i assume "i < length T"
    then have "Suc i < length (rule # T)" by simp
    with Cons.prems have "\<not> re_match (fst ((rule # T) ! Suc i)) s True" by blast
    then show "\<not> re_match (fst (T ! i)) s True" by simp
  qed
  with Cons.IH head rule show ?case by simp
qed

lemma loop_result:
  "service_name_loop T s \<in> set (map snd T) \<or> service_name_loop T s = s"
proof (induction T)
  case Nil
  then show ?case by simp
next
  case (Cons rule T)
  obtain pattern name where rule: "rule = (pattern, name)" by (cases rule)
  show ?case
  proof (cases "re_match pattern s True")
    case True
    with rule show ?thesis by simp
  next
    case False
    with rule Cons.IH show ?thesis by auto
  qed
qed

lemma service_name_examples:
  "get_service_name ''https-wmap'' = ''http''"
  "get_service_name ''rdp-sec'' = ''rdp''"
  "get_service_name ''foobar-proto'' = ''foobar-proto''"
  by (simp_all add: get_service_name_def SERVICE_NAME_MATCHING_def re_match_def char_defs)

text \<open>
  Claim C8. \<open>get_service_name\<close> returns the canonical name of the first rule of the table,
  in its order, whose pattern matches the input without regard to case, and the input itself
  when no rule matches. So \<open>https-wmap\<close> becomes \<open>http\<close>, \<open>rdp-sec\<close> becomes \<open>rdp\<close>, and
  \<open>foobar-proto\<close> stays as it is.
\<close>

theorem get_service_name_first_match:
  "(\<forall>i. i < length SERVICE_NAME_MATCHING \<and>
         re_match (fst (SERVICE_NAME_MATCHING ! i)) s True \<and>
         (\<forall>j<i. \<not> re_match (fst (SERVICE_NAME_MATCHING ! j)) s True) \<longrightarrow>
         get_service_name s = snd (SERVICE_NAME_MATCHING ! i)) \<and>
   ((\<forall>i<length SERVICE_NAME_MATCHING. \<not> re_match (fst (SERVICE_NAME_MATCHING ! i)) s True) \<longrightarrow>
         get_service_name s = s) \<and>
   get_service_name ''https-wmap'' = ''http'' \<and>
   get_service_name ''rdp-sec'' = ''rdp'' \<and>
   get_service_name ''foobar-proto'' = ''foobar-proto''"
  unfolding get_service_name_def [of s]
  using loop_first_match [of _ SERVICE_NAME_MATCHING s] loop_no_match [of SERVICE_NAME_MATCHING s]
    service_name_examples
  by blast

theorem get_service_name_first_match_witness:
  "re_match (fst (SERVICE_NAME_MATCHING ! 2)) ''https-wmap'' True \<and>
   \<not> re_match (fst (SERVICE_NAME_MATCHING ! 0)) ''https-wmap'' True \<and>
   \<not> re_match (fst (SERVICE_NAME_MATCHING ! 1)) ''https-wmap'' True \<and>
   get_service_name ''https-wmap'' = snd (SERVICE_NAME_MATCHING ! 2) \<and>
   snd (SERVICE_NAME_MATCHING ! 2) = ''http'' \<and>
   list_all (\<lambda>rule. \<not> re_match (fst rule) ''foobar-proto'' True) SERVICE_NAME_MATCHING \<and>
   get_service_name ''foobar-proto'' = ''foobar-proto''"
proof -
  have m2: "re_match (fst (SERVICE_NAME_MATCHING ! 2)) ''https-wmap'' True"
    by (simp add: SERVICE_NAME_MATCHING_def re_match_def char_defs)
  have m0: "\<not> re_match (fst (SERVICE_NAME_MATCHING ! 0)) ''https-wmap'' True"
    by (simp add: SERVICE_NAME_MATCHING_def re_match_def char_defs)
  have m1: "\<not> re_match (fst (SERVICE_NAME_MATCHING ! 1)) ''https-wmap'' True"
    by (simp add: SERVICE_NAME_MATCHING_def re_match_def char_defs)
  have len: "(2::nat) < length SERVICE_NAME_MATCHING"
    by (simp add: SERVICE_NAME_MATCHING_def)
  have before: "\<forall>j<2. \<not> re_match (fst (SERVICE_NAME_MATCHING ! j)) ''https-wmap'' True"
  proof (intro allI impI)
    fix j :: nat assume "j < 2"
    then have "j = 0 \<or> j = 1" by auto
    with m0 m1 show "\<not> re_match (fst (SERVICE_NAME_MATCHING ! j)) ''https-wmap'' True" by auto
  qed
  from get_service_name_first_match [of "''https-wmap''"] len m2 before
  have first: "get_service_name ''https-wmap'' = snd (SERVICE_NAME_MATCHING ! 2)" by blast
  have name: "snd (SERVICE_NAME_MATCHING ! 2) = ''http''"
    by (simp add: SERVICE_NAME_MATCHING_def)
  have none: "list_all (\<lambda>rule. \<not> re_match (fst rule) ''foobar-proto'' True) SERVICE_NAME_MATCHING"
    by (simp add: SERVICE_NAME_MATCHING_def re_match_def char_defs)
  then have "\<forall>i<length SERVICE_NAME_MATCHING.
               \<not> re_match (fst (SERVICE_NAME_MATCHING ! i)) ''foobar-proto'' True"
    by (simp add: list_all_length)
  with get_service_name_first_match [of "''foobar-proto''"]
  have unchanged: "get_service_name ''foobar-proto'' = ''foobar-proto''" by blast
  from m2 m0 m1 first name none unchanged show ?thesis by simp
qed

lemma canonical_names:
  "set (map snd SERVICE_NAME_MATCHING) =
     {''ajp'', ''ftp'', ''http'', ''java-rmi'', ''jdwp'', ''mssql'', ''mysql'', ''oracle'',
      ''postgresql'', ''rdp'', ''smb'', ''smtp'', ''snmp'', ''ssh'', ''telnet'', ''vnc''}"
  by (auto simp: SERVICE_NAME_MATCHING_def)

lemma canonical_fixed:
  "get_service_name ''ajp'' = ''ajp''"
  "get_service_name ''ftp'' = ''ftp''"
  "get_service_name ''http'' = ''http''"
  "get_service_name ''java-rmi'' = ''java-rmi''"
  "get_service_name ''jdwp'' = ''jdwp''"
  "get_service_name ''mssql'' = ''mssql''"
  "get_service_name ''mysql'' = ''mysql''"
  "get_service_name ''oracle'' = ''oracle''"
  "get_service_name ''postgresql'' = ''postgresql''"
  "get_service_name ''rdp'' = ''rdp''"
  "get_service_name ''smb'' = ''smb''"
  "get_service_name ''smtp'' = ''smtp''"
  "get_service_name ''snmp'' = ''snmp''"
  "get_service_name ''ssh'' = ''ssh''"
  "get_service_name ''telnet'' = ''telnet''"
  "get_service_name ''vnc'' = ''vnc''"
  by (simp_all add: get_service_name_def SERVICE_NAME_MATCHING_def re_match_def char_defs)

lemma canonical_is_fixed_point:
  "s \<in> set (map snd SERVICE_NAME_MATCHING) \<Longrightarrow> get_service_name s = s"
  unfolding canonical_names using canonical_fixed by auto

text \<open>
  Claim C9. Normalization is idempotent on canonical names: for every name \<open>s\<close> that is a
  value of the rule table, normalizing the normalized name gives the normalized name.
\<close>

theorem get_service_name_idempotent_on_canonical:
  "s \<in> set (map snd SERVICE_NAME_MATCHING) \<Longrightarrow>
     get_service_name (get_service_name s) = get_service_name s"
  by (simp add: canonical_is_fixed_point)

theorem get_service_name_idempotent_on_canonical_witness:
  "''java-rmi'' \<in> set (map snd SERVICE_NAME_MATCHING) \<and>
   get_service_name (get_service_name ''java-rmi'') = get_service_name ''java-rmi'' \<and>
   get_service_name ''java-rmi'' = ''java-rmi''"
proof -
  have mem: "''java-rmi'' \<in> set (map snd SERVICE_NAME_MATCHING)"
    by (simp add: SERVICE_NAME_MATCHING_def)
  from get_service_name_idempotent_on_canonical [OF mem] mem canonical_fixed(4)
  show ?thesis by simp
qed

text \<open>
  Every result of the normalizer is a canonical name or the input itself, so the function is
  idempotent on every string, canonical or not.
\<close>

lemma get_service_name_idempotent:
  "get_service_name (get_service_name s) = get_service_name s"
proof -
  have "get_service_name s \<in> set (map snd SERVICE_NAME_MATCHING) \<or> get_service_name s = s"
    unfolding get_service_name_def by (rule loop_result)
  then show ?thesis
  proof
    assume "get_service_name s \<in> set (map snd SERVICE_NAME_MATCHING)"
    then show ?thesis by (rule canonical_is_fixed_point)
  next
    assume "get_service_name s = s"
    then show ?thesis by simp
  qed
qed


section \<open>Properties of the filter translator\<close>

subsection \<open>The loop over the values\<close>

lemma translate_loop_returns:
  assumes "\<forall>v\<in>set vs. \<exists>p. f v = Inr p"
  shows "translate_loop f acc vs =
           Inr (case acc of
                  None \<Rightarrow> or_all (non_null f vs)
                | Some r \<Rightarrow> Some (foldl OrP r (non_null f vs)))"
  using assms
proof (induction vs arbitrary: acc)
  case Nil
  then show ?case by (cases acc) simp_all
next
  case (Cons v vs)
  from Cons.prems obtain p where p: "f v = Inr p" by auto
  have rest: "\<forall>w\<in>set vs. \<exists>q. f w = Inr q" using Cons.prems by simp
  show ?case
  proof (cases p)
    case None
    with p Cons.IH [OF rest] show ?thesis by (cases acc) simp_all
  next
    case (Some t)
    with p Cons.IH [OF rest] show ?thesis by (cases acc) simp_all
  qed
qed

lemma translate_loop_raises:
  assumes "\<forall>v\<in>set us. \<exists>p. f v = Inr p" and "f w = Inl e"
  shows "translate_loop f acc (us @ w # vs) = Inl e"
  using assms
proof (induction us arbitrary: acc)
  case Nil
  then show ?case by simp
next
  case (Cons u us)
  from Cons.prems obtain p where p: "f u = Inr p" by auto
  have rest: "\<forall>v\<in>set us. \<exists>q. f v = Inr q" using Cons.prems by simp
  show ?case
  proof (cases p)
    case None
    with p Cons.IH [OF rest Cons.prems(2)] show ?thesis by simp
  next
    case (Some t)
    with p Cons.IH [OF rest Cons.prems(2)] show ?thesis by (cases acc) simp_all
  qed
qed

lemma holds_foldl_OrP: "holds L (foldl OrP p ps) = (holds L p \<or> list_ex (holds L) ps)"
  by (induction ps arbitrary: p) auto

lemma or_all_reading: "or_all ps = Some r \<Longrightarrow> holds L r = list_ex (holds L) ps"
  by (cases ps) (auto simp: holds_foldl_OrP)

lemma non_null_all_None: "\<forall>v\<in>set vs. f v = Inr None \<Longrightarrow> non_null f vs = []"
  by (induction vs) simp_all

text \<open>The kinds without a translator are exactly those that are no key of the mapping.\<close>

lemma mapping_None_iff: "mapping nu ft = None \<longleftrightarrow> (\<exists>k. ft = UNMAPPED k)"
  by (cases ft) simp_all

text \<open>
  Claim C3. For a criterion whose kind has no entry in the mapping from kinds to translators,
  \<open>translate\<close> returns null, whatever the values are: none of them is evaluated and no
  error is raised.
\<close>

theorem translate_unknown_kind:
  "mapping nu ft = None \<Longrightarrow> translate nu (Condition_init v ft) = Inr None"
  by (simp add: translate_def Condition_init_def)

theorem translate_unknown_kind_witness:
  "mapping spec_NetUtils (UNMAPPED 0) = None \<and>
   translate spec_NetUtils (Condition_init (Listed [PStr ''abc'', PNone]) (UNMAPPED 0)) = Inr None"
  using translate_unknown_kind [of spec_NetUtils "UNMAPPED 0" "Listed [PStr ''abc'', PNone]"]
  by simp

text \<open>
  What the loop does when no value makes the translator raise: for a recognized kind the result
  is the OR of the non-null per-value predicates, joined in the order of the values, and a
  predicate that is returned holds exactly when one of those predicates holds.
\<close>

lemma translate_or_combination:
  assumes "mapping nu (filtertype c) = Some f"
    and "\<forall>v\<in>set (cvalue c). \<exists>p. f v = Inr p"
  shows "translate nu c = Inr (or_all (non_null f (cvalue c))) \<and>
         (\<forall>r L. translate nu c = Inr (Some r) \<longrightarrow>
                  holds L r = list_ex (holds L) (non_null f (cvalue c)))"
proof -
  have eq: "translate nu c = Inr (or_all (non_null f (cvalue c)))"
    using assms translate_loop_returns [of "cvalue c" f None] by (simp add: translate_def)
  then show ?thesis by (auto simp: or_all_reading)
qed

text \<open>The exact service names \<open>ssh\<close> and \<open>ftp\<close> give \<open>(name == ssh) OR (name == ftp)\<close>.\<close>

lemma translate_or_combination_example:
  "translate spec_NetUtils (Condition_init (Listed [PStr ''ssh'', PStr ''ftp'']) SERVICE_EXACT) =
     Inr (Some (OrP (Equals (Col Service ''name'') (Val (PStr ''ssh'')))
                    (Equals (Col Service ''name'') (Val (PStr ''ftp''))))) \<and>
   (\<forall>L. holds L (OrP (Equals (Col Service ''name'') (Val (PStr ''ssh'')))
                      (Equals (Col Service ''name'') (Val (PStr ''ftp'')))) =
         (L (Equals (Col Service ''name'') (Val (PStr ''ssh''))) \<or>
          L (Equals (Col Service ''name'') (Val (PStr ''ftp'')))))"
  using translate_or_combination
    [of spec_NetUtils "Condition_init (Listed [PStr ''ssh'', PStr ''ftp'']) SERVICE_EXACT"
        translate_service_exact]
  by (simp add: Condition_init_def translate_service_exact_def column_eq_def)

text \<open>
  Claim C5. For a recognized kind, \<open>translate\<close> returns null when every value translates to
  null; the empty sequence of values is the first case of this.
\<close>

theorem translate_all_null:
  assumes "mapping nu (filtertype c) = Some f"
    and "\<forall>v\<in>set (cvalue c). f v = Inr None"
  shows "translate nu c = Inr None"
proof -
  have "\<forall>v\<in>set (cvalue c). \<exists>p. f v = Inr p" using assms(2) by simp
  then have "translate nu c = Inr (or_all (non_null f (cvalue c)))"
    using assms(1) translate_loop_returns [of "cvalue c" f None] by (simp add: translate_def)
  then show ?thesis using non_null_all_None [OF assms(2)] by simp
qed

theorem translate_all_null_witness:
  "translate spec_NetUtils (Condition_init (Listed []) PORT) = Inr None \<and>
   translate spec_NetUtils
     (Condition_init (Listed [PBool False, PBool False]) USER_AND_PASS) = Inr None"
  using translate_all_null
      [of spec_NetUtils "Condition_init (Listed []) PORT" "translate_port spec_NetUtils"]
    translate_all_null
      [of spec_NetUtils "Condition_init (Listed [PBool False, PBool False]) USER_AND_PASS"
          translate_user_and_pass]
  by (simp add: Condition_init_def translate_user_and_pass_def)

text \<open>An empty sequence of values gives null for every kind, recognized or not.\<close>

lemma translate_no_values: "translate nu (Condition_init (Listed []) ft) = Inr None"
  by (simp add: translate_def Condition_init_def split: option.splits)

text \<open>The first value that makes the translator raise ends the translation with its error.\<close>

lemma translate_first_error:
  assumes "mapping nu ft = Some f"
    and "\<forall>v\<in>set us. \<exists>p. f v = Inr p" and "f w = Inl e"
  shows "translate nu (Condition_init (Listed (us @ w # vs)) ft) = Inl e"
  using assms translate_loop_raises [of us f w e None vs]
  by (simp add: translate_def Condition_init_def)


subsection \<open>Ports\<close>

text \<open>What the port translator does on a single port and on a value it rejects.\<close>

lemma translate_port_single:
  "is_valid_port nu v \<Longrightarrow> py_int v = Inr n \<Longrightarrow>
     translate nu (Condition_init (Single v) PORT) =
       Inr (Some (Equals (Col Service ''port'') (Val (PInt n))))"
  by (simp add: translate_def Condition_init_def translate_port_def)

lemma translate_port_invalid:
  "\<not> is_valid_port nu v \<Longrightarrow> \<not> is_valid_port_range nu v \<Longrightarrow>
     translate nu (Condition_init (Single v) PORT) =
       Inl (FilterException (py_str v @ '' invalid port/range''))"
  by (simp add: translate_def Condition_init_def translate_port_def)

lemma translate_port_examples:
  "translate spec_NetUtils (Condition_init (Single (PStr ''9443'')) PORT) =
     Inr (Some (Equals (Col Service ''port'') (Val (PInt 9443))))"
  "translate spec_NetUtils (Condition_init (Single (PStr ''abc'')) PORT) =
     Inl (FilterException ''abc invalid port/range'')"
  by (simp_all add: translate_def Condition_init_def translate_port_def validator_defs char_defs
        int_defs)

text \<open>No value at all makes the port translator return a range predicate.\<close>

lemma translate_port_never_between:
  "translate_port nu v \<noteq> Inr (Some (Between c lo hi))"
  by (auto simp: translate_port_def module_globals_def
           split: sum.splits pyval.splits list.splits)

text \<open>
  Claim C1 (the range branch, where the code departs from the claim). The claim has a value
  \<open>min-max\<close> translate to an inclusive range predicate on the port column. In the code a
  string that is no single port, is accepted as a port range and splits at \<open>-\<close> into two
  parts makes \<open>translate\<close> raise \<open>NameError\<close> for the unbound name \<open>Sevrice\<close>: no range
  predicate is built.
\<close>

theorem port_range_raises_NameError:
  "\<not> is_valid_port nu (PStr s) \<Longrightarrow> is_valid_port_range nu (PStr s) \<Longrightarrow>
   py_split CHR ''-'' s = [minport, maxport] \<Longrightarrow>
     translate nu (Condition_init (Single (PStr s)) PORT) = Inl (NameError ''Sevrice'')"
  by (simp add: translate_def Condition_init_def translate_port_def module_globals_def)

theorem port_range_raises_NameError_witness:
  "\<not> is_valid_port spec_NetUtils (PStr ''8000-8100'') \<and>
   is_valid_port_range spec_NetUtils (PStr ''8000-8100'') \<and>
   py_split CHR ''-'' ''8000-8100'' = [''8000'', ''8100''] \<and>
   translate spec_NetUtils (Condition_init (Single (PStr ''8000-8100'')) PORT) =
     Inl (NameError ''Sevrice'')"
proof -
  have a: "\<not> is_valid_port spec_NetUtils (PStr ''8000-8100'')"
    by (simp add: validator_defs char_defs)
  have b: "is_valid_port_range spec_NetUtils (PStr ''8000-8100'')"
    by (simp add: validator_defs char_defs)
  have c: "py_split CHR ''-'' ''8000-8100'' = [''8000'', ''8100'']"
    by simp
  from port_range_raises_NameError [OF a b c] a b c show ?thesis by simp
qed

text \<open>
  Claim C4 (where the code departs from the claim). The claim has \<open>translate\<close> return the
  OR of the non-null per-value predicates for every recognized kind and all values none of
  which raises a validation failure. For the kind of ports, take a value that is a valid port
  and a string that is accepted as a port range: the first translates to its equality, the
  second raises no filter exception, and still \<open>translate\<close> returns no OR of the two but
  raises \<open>NameError\<close> for the unbound name \<open>Sevrice\<close>.
\<close>

theorem or_combination_fails_on_port_range:
  "is_valid_port nu v \<Longrightarrow> py_int v = Inr n \<Longrightarrow>
   \<not> is_valid_port nu (PStr s) \<Longrightarrow> is_valid_port_range nu (PStr s) \<Longrightarrow>
   py_split CHR ''-'' s = [minport, maxport] \<Longrightarrow>
     mapping nu PORT = Some (translate_port nu) \<and>
     translate_port nu v = Inr (Some (Equals (Col Service ''port'') (Val (PInt n)))) \<and>
     (\<forall>msg. translate_port nu (PStr s) \<noteq> Inl (FilterException msg)) \<and>
     translate nu (Condition_init (Listed [v, PStr s]) PORT) = Inl (NameError ''Sevrice'')"
  by (simp add: translate_def Condition_init_def translate_port_def module_globals_def)

theorem or_combination_fails_on_port_range_witness:
  "is_valid_port spec_NetUtils (PStr ''80'') \<and>
   py_int (PStr ''80'') = Inr 80 \<and>
   \<not> is_valid_port spec_NetUtils (PStr ''8000-8100'') \<and>
   is_valid_port_range spec_NetUtils (PStr ''8000-8100'') \<and>
   py_split CHR ''-'' ''8000-8100'' = [''8000'', ''8100''] \<and>
   translate_port spec_NetUtils (PStr ''80'') =
     Inr (Some (Equals (Col Service ''port'') (Val (PInt 80)))) \<and>
   (\<forall>msg. translate_port spec_NetUtils (PStr ''8000-8100'') \<noteq> Inl (FilterException msg)) \<and>
   translate spec_NetUtils (Condition_init (Listed [PStr ''80'', PStr ''8000-8100'']) PORT) =
     Inl (NameError ''Sevrice'')"
proof -
  have a: "is_valid_port spec_NetUtils (PStr ''80'')"
    by (simp add: validator_defs char_defs)
  have b: "py_int (PStr ''80'') = Inr 80"
    by (simp add: int_defs char_defs)
  have c: "\<not> is_valid_port spec_NetUtils (PStr ''8000-8100'')"
    by (simp add: validator_defs char_defs)
  have d: "is_valid_port_range spec_NetUtils (PStr ''8000-8100'')"
    by (simp add: validator_defs char_defs)
  have e: "py_split CHR ''-'' ''8000-8100'' = [''8000'', ''8100'']"
    by simp
  from or_combination_fails_on_port_range [OF a b c d e] a b c d e show ?thesis by simp
qed

text \<open>
  The same happens for the two id kinds, where the value that is no number raises the
  \<open>ValueError\<close> of \<open>int\<close> and not the filter exception.
\<close>

lemma or_combination_fails_on_id:
  "translate nu (Condition_init (Listed [PStr ''1'', PStr ''abc'']) SERVICE_ID) = Inl ValueError"
  by (simp add: translate_def Condition_init_def translate_service_id_def int_defs char_defs)

subsection \<open>Service id and check id\<close>

lemma id_filters_numeric:
  "py_int v = Inr n \<Longrightarrow>
     translate nu (Condition_init (Single v) SERVICE_ID) =
       Inr (Some (Equals (Col Service ''id'') (Val (PInt n)))) \<and>
     translate nu (Condition_init (Single v) CHECK_ID) =
       Inr (Some (Equals (Col Result ''id'') (Val (PInt n))))"
  by (simp add: translate_def Condition_init_def translate_service_id_def translate_check_id_def)

text \<open>Neither translator ever raises the module's own exception.\<close>

lemma id_filters_never_FilterException:
  "translate_service_id v \<noteq> Inl (FilterException msg)"
  "translate_check_id v \<noteq> Inl (FilterException msg)"
  by (cases v; simp add: translate_service_id_def translate_check_id_def split: option.splits)+

text \<open>
  Claim C2 (the failure case, where the code departs from the claim). The claim has every
  non-numeric value of a service-id or check-id criterion raise the filter's validation
  error. In the code a string that \<open>int\<close> cannot parse makes \<open>translate\<close> raise the
  \<open>ValueError\<close> of \<open>int\<close>, for both kinds.
\<close>

theorem id_filters_raise_ValueError:
  "int_of_str s = None \<Longrightarrow>
     translate nu (Condition_init (Single (PStr s)) SERVICE_ID) = Inl ValueError \<and>
     translate nu (Condition_init (Single (PStr s)) CHECK_ID) = Inl ValueError"
  by (simp add: translate_def Condition_init_def translate_service_id_def translate_check_id_def)

theorem id_filters_raise_ValueError_witness:
  "int_of_str ''abc'' = None \<and>
   translate spec_NetUtils (Condition_init (Single (PStr ''abc'')) SERVICE_ID) = Inl ValueError \<and>
   translate spec_NetUtils (Condition_init (Single (PStr ''abc'')) CHECK_ID) = Inl ValueError"
proof -
  have a: "int_of_str ''abc'' = None"
    by (simp add: int_defs char_defs)
  from id_filters_raise_ValueError [OF a, of spec_NetUtils] a show ?thesis by simp
qed

subsection \<open>Addresses\<close>

lemma spec_ip_checks:
  "is_valid_ip spec_NetUtils (PStr ''10.0.0.1'')"
  "\<not> is_valid_ip spec_NetUtils (PStr ''10.0.0.0/24'')"
  "is_valid_ip_range spec_NetUtils (PStr ''10.0.0.0/24'')"
  "\<not> is_valid_ip spec_NetUtils (PStr ''10.0.0.1/33'')"
  "\<not> is_valid_ip_range spec_NetUtils (PStr ''10.0.0.1/33'')"
  by (simp_all add: validator_defs char_defs)

text \<open>
  Claim C6. For an address criterion, a value that is a valid IP gives the equality of the
  host address with it, a value that is a valid range (and no single IP) gives the
  containment of the host address in the range, and any other value raises the filter
  exception with the value at the head of its message. With the validators read from the
  specification, \<open>10.0.0.0/24\<close> gives the containment predicate and \<open>10.0.0.1/33\<close> raises.
\<close>

theorem translate_address:
  "(is_valid_ip nu v \<longrightarrow>
      translate nu (Condition_init (Single v) IP) =
        Inr (Some (Equals (Col Host ''ip'') (Val v)))) \<and>
   (\<not> is_valid_ip nu v \<and> is_valid_ip_range nu v \<longrightarrow>
      translate nu (Condition_init (Single v) IP) = Inr (Some (InIpRange v))) \<and>
   (\<not> is_valid_ip nu v \<and> \<not> is_valid_ip_range nu v \<longrightarrow>
      translate nu (Condition_init (Single v) IP) =
        Inl (FilterException (py_str v @ '' invalid IP/range'')))"
  by (simp add: translate_def Condition_init_def translate_ip_def)

theorem translate_address_witness:
  "translate spec_NetUtils (Condition_init (Single (PStr ''10.0.0.1'')) IP) =
     Inr (Some (Equals (Col Host ''ip'') (Val (PStr ''10.0.0.1'')))) \<and>
   translate spec_NetUtils (Condition_init (Single (PStr ''10.0.0.0/24'')) IP) =
     Inr (Some (InIpRange (PStr ''10.0.0.0/24''))) \<and>
   translate spec_NetUtils (Condition_init (Single (PStr ''10.0.0.1/33'')) IP) =
     Inl (FilterException ''10.0.0.1/33 invalid IP/range'')"
  using translate_address [of spec_NetUtils "PStr ''10.0.0.1''"]
    translate_address [of spec_NetUtils "PStr ''10.0.0.0/24''"]
    translate_address [of spec_NetUtils "PStr ''10.0.0.1/33''"]
    spec_ip_checks
  by simp

subsection \<open>The credential presence flags\<close>

text \<open>
  Claim C7. For the two presence flags the value false translates to null. The value true
  translates, for "has username and password", to the predicate that the username is set
  and the password is set, and for "has only username" to the predicate that the username is
  set and the password is not.
\<close>

theorem presence_flags_boolean:
  "translate nu (Condition_init (Single (PBool False)) USER_AND_PASS) = Inr None \<and>
   translate nu (Condition_init (Single (PBool True)) USER_AND_PASS) =
     Inr (Some (AndP (IsNot (Col Credential ''username'') PNone)
                     (IsNot (Col Credential ''password'') PNone))) \<and>
   translate nu (Condition_init (Single (PBool False)) ONLY_USER) = Inr None \<and>
   translate nu (Condition_init (Single (PBool True)) ONLY_USER) =
     Inr (Some (AndP (IsNot (Col Credential ''username'') PNone)
                     (Is (Col Credential ''password'') PNone)))"
  by (simp add: translate_def Condition_init_def translate_user_and_pass_def
        translate_only_user_def)

text \<open>
  Claim C10. The two presence flags decide by the truth value of their argument, of
  whatever type, and never raise: the falsy values, which are \<open>None\<close>, \<open>False\<close>, \<open>0\<close> and
  the empty string, give null, and every other value gives the presence predicate, the
  string \<open>false\<close> and the integer \<open>1\<close> among them.
\<close>

theorem presence_flags_truthiness:
  "translate nu (Condition_init (Single v) USER_AND_PASS) =
     Inr (if v = PNone \<or> v = PBool False \<or> v = PInt 0 \<or> v = PStr []
          then None
          else Some (AndP (IsNot (Col Credential ''username'') PNone)
                          (IsNot (Col Credential ''password'') PNone))) \<and>
   translate nu (Condition_init (Single v) ONLY_USER) =
     Inr (if v = PNone \<or> v = PBool False \<or> v = PInt 0 \<or> v = PStr []
          then None
          else Some (AndP (IsNot (Col Credential ''username'') PNone)
                          (Is (Col Credential ''password'') PNone)))"
  by (cases v) (auto simp: translate_def Condition_init_def translate_user_and_pass_def
        translate_only_user_def)

theorem presence_flags_truthiness_witness:
  "translate spec_NetUtils (Condition_init (Single (PStr ''false'')) USER_AND_PASS) =
     Inr (Some (AndP (IsNot (Col Credential ''username'') PNone)
                     (IsNot (Col Credential ''password'') PNone))) \<and>
   translate spec_NetUtils (Condition_init (Single (PInt 1)) ONLY_USER) =
     Inr (Some (AndP (IsNot (Col Credential ''username'') PNone)
                     (Is (Col Credential ''password'') PNone))) \<and>
   translate spec_NetUtils (Condition_init (Single (PInt 0)) USER_AND_PASS) = Inr None \<and>
   translate spec_NetUtils (Condition_init (Single (PStr [])) ONLY_USER) = Inr None \<and>
   translate spec_NetUtils (Condition_init (Single PNone) ONLY_USER) = Inr None"
  using presence_flags_truthiness [of spec_NetUtils "PStr ''false''"]
    presence_flags_truthiness [of spec_NetUtils "PInt 1"]
    presence_flags_truthiness [of spec_NetUtils "PInt 0"]
    presence_flags_truthiness [of spec_NetUtils "PStr []"]
    presence_flags_truthiness [of spec_NetUtils PNone]
  by simp

end
